theory Spec2Isabelle
  imports Main
begin

section \<open>Exceptions and truth values\<close>

text \<open>
  The exceptions that \<^verbatim>\<open>dbus_objects/__init__.py\<close> raises itself, each with its
  message, and the two kinds of exception that user code (a subscriber callback, a
  setter, a getter) may raise: \<open>Raised\<close> is an instance of a subclass of Python's
  \<^verbatim>\<open>Exception\<close>, \<open>BaseRaised\<close> an instance of \<^verbatim>\<open>BaseException\<close> that is not an
  \<^verbatim>\<open>Exception\<close> (\<^verbatim>\<open>KeyboardInterrupt\<close>, \<^verbatim>\<open>SystemExit\<close>).
\<close>

datatype py_exception =
    ValueError string
  | AttributeError string
  | DBusObjectException string
  | Raised string
  | BaseRaised string

text \<open>\<^verbatim>\<open>isinstance(e, Exception)\<close>: what \<^verbatim>\<open>except Exception\<close> catches.\<close>

fun is_Exception :: "py_exception \<Rightarrow> bool" where
  "is_Exception (BaseRaised m) = False"
| "is_Exception e = True"

text \<open>\<^verbatim>\<open>str(e)\<close> of an exception built from one message.\<close>

fun exception_str :: "py_exception \<Rightarrow> string" where
  "exception_str (ValueError m) = m"
| "exception_str (AttributeError m) = m"
| "exception_str (DBusObjectException m) = m"
| "exception_str (Raised m) = m"
| "exception_str (BaseRaised m) = m"

text \<open>
  Python's truth value of an \<^verbatim>\<open>Optional[str]\<close> (\<^verbatim>\<open>if name\<close>, \<^verbatim>\<open>if not self._interface\<close>):
  \<^verbatim>\<open>None\<close> and the empty string are false.
\<close>

fun str_truthy :: "string option \<Rightarrow> bool" where
  "str_truthy None = False"
| "str_truthy (Some s) = (s \<noteq> [])"

text \<open>The truth value of an \<^verbatim>\<open>Optional[List[...]]\<close>: \<^verbatim>\<open>None\<close> and \<^verbatim>\<open>[]\<close> are false.\<close>

fun list_truthy :: "'a list option \<Rightarrow> bool" where
  "list_truthy None = False"
| "list_truthy (Some xs) = (xs \<noteq> [])"

text \<open>\<^verbatim>\<open>xs or []\<close> for an optional list.\<close>

fun or_empty :: "'a list option \<Rightarrow> 'a list" where
  "or_empty None = []"
| "or_empty (Some xs) = xs"

text \<open>\<^verbatim>\<open>sep.join(parts)\<close>.\<close>

fun join :: "string \<Rightarrow> string list \<Rightarrow> string" where
  "join sep [] = []"
| "join sep [x] = x"
| "join sep (x # y # ys) = x @ sep @ join sep (y # ys)"

text \<open>A string between single quotes, as Python's messages write names.\<close>

definition quoted :: "string \<Rightarrow> string" where
  "quoted s = [CHR 0x27] @ s @ [CHR 0x27]"

section \<open>The signature module\<close>

text \<open>
  \<^verbatim>\<open>dbus_objects.signature\<close> is imported by \<^verbatim>\<open>__init__.py\<close> but is a separate module.
  Everything \<^verbatim>\<open>__init__.py\<close> uses of it is a field of this record, and every function
  below that reaches into the module takes the record as its first argument:
  \<^item> \<open>dbus_case\<close>: the naming-convention conversion;
  \<^item> \<open>from_parameters\<close>, \<open>from_return\<close>, \<open>DBusSignature\<close>: the three constructors
    of a signature object (they may raise: an unannotated or unmappable type);
  \<^item> \<open>sig_str\<close>, \<open>sig_iter\<close>, \<open>sig_names\<close>, \<open>sig_bool\<close>: \<^verbatim>\<open>str(sig)\<close>,
    \<^verbatim>\<open>list(sig)\<close>, \<^verbatim>\<open>sig.names\<close> and the truth value of a signature object.
  \<open>'f\<close> is the type of function objects, \<open>'ty\<close> of Python types, \<open>'s\<close> of
  signature objects.
\<close>

record ('f, 'ty, 's) signature_module =
  dbus_case :: "string \<Rightarrow> string"
  from_parameters :: "'f \<Rightarrow> py_exception + 's"
  from_return :: "'f \<Rightarrow> string list \<Rightarrow> bool \<Rightarrow> py_exception + 's"
  DBusSignature :: "'ty list \<Rightarrow> string list option \<Rightarrow> py_exception + 's"
  sig_str :: "'s \<Rightarrow> string"
  sig_iter :: "'s \<Rightarrow> string list"
  sig_names :: "'s \<Rightarrow> string list option"
  sig_bool :: "'s \<Rightarrow> bool"

section \<open>Exposed objects\<close>

text \<open>
  An instance of \<^verbatim>\<open>DBusObject\<close>: the attributes \<^verbatim>\<open>__init__\<close> sets. \<open>'cb\<close> is the
  type of the emission callbacks; a subclass adds its own attributes in the record's
  extension.
\<close>

record 'cb dbus_object =
  is_dbus_object :: bool
  priv_emit_signal_callbacks :: "'cb list"
  priv_dbus_name :: string
  default_interface_root :: "string option"

text \<open>
  \<^verbatim>\<open>DBusObject.__init__(self, name, default_interface_root)\<close>; \<open>cls_name\<close> is
  \<^verbatim>\<open>type(self).__name__\<close>.
\<close>

definition DBusObject_init ::
  "('f, 'ty, 's) signature_module \<Rightarrow> string \<Rightarrow> string option \<Rightarrow> string option \<Rightarrow> 'cb dbus_object"
where
  "DBusObject_init M cls_name name root =
     \<lparr> is_dbus_object = True,
       priv_emit_signal_callbacks = [],
       priv_dbus_name =
         dbus_case M (case name of
                        None \<Rightarrow> cls_name
                      | Some n \<Rightarrow> if n \<noteq> [] then n else cls_name),
       default_interface_root = root \<rparr>"

definition dbus_name :: "('cb, 'z) dbus_object_scheme \<Rightarrow> string" where
  "dbus_name self = priv_dbus_name self"

section \<open>Member descriptors\<close>

subsection \<open>\<^verbatim>\<open>_DBusDescriptorBase\<close>\<close>

text \<open>
  The attributes of \<^verbatim>\<open>_DBusDescriptorBase\<close>; a leading underscore of the source is
  written \<open>priv_\<close>. \<open>priv_descriptor_name\<close> is \<open>None\<close> until \<^verbatim>\<open>__set_name__\<close> has
  created the attribute.
\<close>

record descriptor_base =
  priv_interface_orig :: "string option"
  priv_interface :: "string option"
  priv_name :: "string option"
  priv_list_name :: "string option"
  priv_descriptor_name :: "string option"

definition DBusDescriptorBase_init ::
  "('f, 'ty, 's) signature_module \<Rightarrow> string option \<Rightarrow> string option \<Rightarrow> descriptor_base"
where
  "DBusDescriptorBase_init M interface name =
     \<lparr> priv_interface_orig = interface,
       priv_interface = interface,
       priv_name = (case name of
                      None \<Rightarrow> None
                    | Some n \<Rightarrow> if n \<noteq> [] then Some (dbus_case M n) else None),
       priv_list_name = None,
       priv_descriptor_name = None \<rparr>"

text \<open>The getters of the \<^verbatim>\<open>interface\<close> and \<^verbatim>\<open>name\<close> properties.\<close>

definition get_interface :: "'a descriptor_base_scheme \<Rightarrow> py_exception + string" where
  "get_interface d =
     (case priv_interface d of
        None \<Rightarrow> Inl (ValueError ''Interface hasn't been set yet'')
      | Some i \<Rightarrow> if i = [] then Inl (ValueError ''Interface hasn't been set yet'') else Inr i)"

definition get_name :: "'a descriptor_base_scheme \<Rightarrow> py_exception + string" where
  "get_name d =
     (case priv_name d of
        None \<Rightarrow> Inl (ValueError ''Name hasn't been set yet'')
      | Some n \<Rightarrow> if n = [] then Inl (ValueError ''Name hasn't been set yet'') else Inr n)"

text \<open>
  \<^verbatim>\<open>register_interface(self, obj)\<close> assigns \<^verbatim>\<open>self._interface\<close>: the result is the
  descriptor after the call. The message of the exception is an f-string that reads
  \<^verbatim>\<open>self.name\<close>, so an unset name raises there first.
\<close>

definition register_interface ::
  "'a descriptor_base_scheme \<Rightarrow> ('cb, 'z) dbus_object_scheme \<Rightarrow> py_exception + 'a descriptor_base_scheme"
where
  "register_interface d obj =
     (if \<not> str_truthy (priv_interface_orig d) then
        (case default_interface_root obj of
           Some root \<Rightarrow>
             if root \<noteq> [] then
               Inr (d\<lparr>priv_interface := Some (join ''.'' [root, priv_dbus_name obj])\<rparr>)
             else
               (case get_name d of
                  Inl e \<Rightarrow> Inl e
                | Inr n \<Rightarrow> Inl (DBusObjectException (''Missing interface in DBus method: '' @ n)))
         | None \<Rightarrow>
             (case get_name d of
                Inl e \<Rightarrow> Inl e
              | Inr n \<Rightarrow> Inl (DBusObjectException (''Missing interface in DBus method: '' @ n))))
      else Inr d)"


subsection \<open>\<^verbatim>\<open>_DBusMethodBase\<close> and \<^verbatim>\<open>_DBusMethod\<close>\<close>

text \<open>
  A function object: its \<^verbatim>\<open>__name__\<close> and what calling it does. For the function
  under a property, the argument is the instance (\<open>None\<close> when the attribute is read
  on the type) and the result is the value returned or the exception raised.
\<close>

record ('a, 'b) py_function =
  fn_name :: string
  fn_call :: "'a \<Rightarrow> 'b"

record ('a, 'b, 's) method_base = descriptor_base +
  priv_func :: "('a, 'b) py_function"
  priv_return_names :: "string list"
  priv_multiple_returns :: bool
  priv_input_signature :: 's
  priv_output_signature :: 's

text \<open>
  \<^verbatim>\<open>_DBusMethodBase.__init__\<close>: the base initialiser runs with
  \<^verbatim>\<open>name if name else func.__name__\<close>, then the two signatures are resolved; an
  exception of the resolver leaves no descriptor.
\<close>

definition DBusMethodBase_init ::
  "(('a, 'b) py_function, 'ty, 's) signature_module \<Rightarrow> ('a, 'b) py_function \<Rightarrow>
   string option \<Rightarrow> string option \<Rightarrow> string list option \<Rightarrow> bool \<Rightarrow>
   py_exception + ('a, 'b, 's) method_base"
where
  "DBusMethodBase_init M func interface name return_names multiple_returns =
     (let base = DBusDescriptorBase_init M interface
                   (Some (case name of
                            None \<Rightarrow> fn_name func
                          | Some n \<Rightarrow> if n \<noteq> [] then n else fn_name func))
      in case from_parameters M func of
           Inl e \<Rightarrow> Inl e
         | Inr isig \<Rightarrow>
             (case from_return M func (or_empty return_names) multiple_returns of
                Inl e \<Rightarrow> Inl e
              | Inr osig \<Rightarrow>
                  Inr \<lparr> priv_interface_orig = priv_interface_orig base,
                        priv_interface = priv_interface base,
                        priv_name = priv_name base,
                        priv_list_name = priv_list_name base,
                        priv_descriptor_name = priv_descriptor_name base,
                        priv_func = func,
                        priv_return_names = or_empty return_names,
                        priv_multiple_returns = multiple_returns,
                        priv_input_signature = isig,
                        priv_output_signature = osig \<rparr>))"

text \<open>
  What reading a member yields: the function object itself, a bound method
  (\<^verbatim>\<open>types.MethodType(func, obj)\<close>), or the value that a call of the function
  returned.
\<close>

datatype ('f, 'o, 'r) attr_value =
    Function 'f
  | MethodType 'f 'o
  | Value 'r

text \<open>
  \<^verbatim>\<open>_DBusMethodBase.__get__(self, obj)\<close>; the descriptor after the call is returned
  too, since \<^verbatim>\<open>register_interface\<close> assigns to it.
\<close>

definition DBusMethodBase_get ::
  "('a, 'b, 's, 'x) method_base_scheme \<Rightarrow> ('cb, 'z) dbus_object_scheme option \<Rightarrow>
   py_exception +
     ((('a, 'b) py_function, ('cb, 'z) dbus_object_scheme, 'b) attr_value \<times>
      ('a, 'b, 's, 'x) method_base_scheme)"
where
  "DBusMethodBase_get d obj =
     (case obj of
        None \<Rightarrow> Inr (Function (priv_func d), d)
      | Some ob \<Rightarrow>
          (case register_interface d ob of
             Inl e \<Rightarrow> Inl e
           | Inr d' \<Rightarrow> Inr (MethodType (priv_func d') ob, d')))"

definition DBusMethod_init ::
  "(('a, 'b) py_function, 'ty, 's) signature_module \<Rightarrow> ('a, 'b) py_function \<Rightarrow>
   string option \<Rightarrow> string option \<Rightarrow> string list option \<Rightarrow> bool \<Rightarrow>
   py_exception + ('a, 'b, 's) method_base"
where
  "DBusMethod_init M func interface name return_names multiple_returns =
     (case DBusMethodBase_init M func interface name return_names multiple_returns of
        Inl e \<Rightarrow> Inl e
      | Inr d \<Rightarrow> Inr (d\<lparr>priv_list_name := Some ''_dbus_methods''\<rparr>))"

definition DBusMethod_signature ::
  "('f, 'ty, 's) signature_module \<Rightarrow> ('a, 'b, 's, 'x) method_base_scheme \<Rightarrow> string \<times> string"
where
  "DBusMethod_signature M d =
     (sig_str M (priv_input_signature d), sig_str M (priv_output_signature d))"

subsection \<open>Introspection XML\<close>

text \<open>
  An \<^verbatim>\<open>ET.Element\<close>: tag, attributes in insertion order, children. An attribute value
  is optional because \<^verbatim>\<open>zip_longest\<close> fills the shorter sequence with \<^verbatim>\<open>None\<close>.
\<close>

datatype element =
  Element (tag: string) (attrib: "(string \<times> string option) list") (children: "element list")

text \<open>\<^verbatim>\<open>itertools.zip_longest(xs, ys)\<close>.\<close>

fun zip_longest :: "'a list \<Rightarrow> 'b list \<Rightarrow> ('a option \<times> 'b option) list" where
  "zip_longest [] [] = []"
| "zip_longest (x # xs) [] = (Some x, None) # zip_longest xs []"
| "zip_longest [] (y # ys) = (None, Some y) # zip_longest [] ys"
| "zip_longest (x # xs) (y # ys) = (Some x, Some y) # zip_longest xs ys"

text \<open>The body of the inner loop of \<^verbatim>\<open>_DBusMethod.xml\<close>: one \<^verbatim>\<open>arg\<close> element.\<close>

definition method_arg :: "string \<Rightarrow> string option \<times> string option \<Rightarrow> element" where
  "method_arg direction p =
     Element ''arg''
       ([(''direction'', Some direction), (''type'', snd p)] @
        (if str_truthy (fst p) then [(''name'', fst p)] else []))
       []"

definition method_args ::
  "('f, 'ty, 's) signature_module \<Rightarrow> string \<Rightarrow> 's \<Rightarrow> element list"
where
  "method_args M direction sg =
     map (method_arg direction) (zip_longest (or_empty (sig_names M sg)) (sig_iter M sg))"

definition DBusMethod_xml ::
  "('f, 'ty, 's) signature_module \<Rightarrow> ('a, 'b, 's, 'x) method_base_scheme \<Rightarrow>
   py_exception + element"
where
  "DBusMethod_xml M d =
     (if \<not> sig_bool M (priv_input_signature d) \<or> \<not> sig_bool M (priv_output_signature d) then
        Inl (ValueError ''Signature hasn't been set yet'')
      else
        (case get_name d of
           Inl e \<Rightarrow> Inl e
         | Inr n \<Rightarrow>
             Inr (Element ''method'' [(''name'', Some n)]
                    (method_args M ''in'' (priv_input_signature d) @
                     method_args M ''out'' (priv_output_signature d)))))"

text \<open>The \<^verbatim>\<open>arg\<close> children of an element with a given direction.\<close>

definition args_with_direction :: "string \<Rightarrow> element \<Rightarrow> element list" where
  "args_with_direction direction x =
     filter (\<lambda>c. tag c = ''arg'' \<and> map_of (attrib c) ''direction'' = Some (Some direction))
       (children x)"

subsection \<open>\<^verbatim>\<open>_DBusProperty\<close>\<close>

text \<open>
  The function under a property takes the instance; a setter takes the instance and
  the value and returns the instance as it has left it, with the exception it raised,
  if any.
\<close>

record ('o, 'r, 'v, 's) property =
  "('o option, py_exception + 'r, 's) method_base" +
  priv_setter :: "('o \<times> 'v, py_exception option \<times> 'o) py_function option"

definition DBusProperty_init ::
  "(('o option, py_exception + 'r) py_function, 'ty, 's) signature_module \<Rightarrow>
   ('o option, py_exception + 'r) py_function \<Rightarrow>
   string option \<Rightarrow> string option \<Rightarrow> string list option \<Rightarrow> bool \<Rightarrow>
   py_exception + ('o, 'r, 'v, 's) property"
where
  "DBusProperty_init M func interface name return_names multiple_returns =
     (case DBusMethodBase_init M func interface name return_names multiple_returns of
        Inl e \<Rightarrow> Inl e
      | Inr d \<Rightarrow>
          Inr (method_base.extend (d\<lparr>priv_list_name := Some ''_dbus_properties''\<rparr>)
                 (property.fields None)))"

definition DBusProperty_signature ::
  "('f, 'ty, 's) signature_module \<Rightarrow> ('o, 'r, 'v, 's, 'x) property_scheme \<Rightarrow> string"
where
  "DBusProperty_signature M p = sig_str M (priv_output_signature p)"

definition DBusProperty_xml ::
  "('f, 'ty, 's) signature_module \<Rightarrow> ('o, 'r, 'v, 's, 'x) property_scheme \<Rightarrow>
   py_exception + element"
where
  "DBusProperty_xml M p =
     (if \<not> sig_bool M (priv_input_signature p) \<or> \<not> sig_bool M (priv_output_signature p) then
        Inl (ValueError ''Signature hasn't been set yet'')
      else
        (case get_name p of
           Inl e \<Rightarrow> Inl e
         | Inr n \<Rightarrow>
             Inr (Element ''property''
                    [(''name'', Some n),
                     (''type'', Some (DBusProperty_signature M p)),
                     (''access'', Some (if priv_setter p = None then ''read'' else ''readwrite''))]
                    [])))"

text \<open>
  \<^verbatim>\<open>_DBusProperty.__get__\<close>: both branches of the source call the function with
  \<^verbatim>\<open>obj\<close>.
\<close>

definition DBusProperty_get ::
  "('o, 'r, 'v, 's, 'x) property_scheme \<Rightarrow> 'o option \<Rightarrow>
   py_exception + (('o option, py_exception + 'r) py_function, 'o, 'r) attr_value"
where
  "DBusProperty_get p obj =
     (case obj of
        None \<Rightarrow> (case fn_call (priv_func p) None of Inl e \<Rightarrow> Inl e | Inr r \<Rightarrow> Inr (Value r))
      | Some ob \<Rightarrow>
          (case fn_call (priv_func p) (Some ob) of Inl e \<Rightarrow> Inl e | Inr r \<Rightarrow> Inr (Value r)))"

text \<open>
  \<^verbatim>\<open>_DBusProperty.__set__(self, obj, value)\<close>: the exception raised, if any, and the
  instance after the call. Without \<^verbatim>\<open>__set_name__\<close> the message's f-string finds no
  \<^verbatim>\<open>_descriptor_name\<close>, which is an \<^verbatim>\<open>AttributeError\<close> as well, with Python's
  message for a missing attribute.
\<close>

definition DBusProperty_set ::
  "('o, 'r, 'v, 's, 'x) property_scheme \<Rightarrow> 'o \<Rightarrow> 'v \<Rightarrow> py_exception option \<times> 'o"
where
  "DBusProperty_set p obj v =
     (case priv_setter p of
        None \<Rightarrow>
          (case priv_descriptor_name p of
             None \<Rightarrow>
               (Some (AttributeError
                        (quoted ''_DBusProperty'' @ '' object has no attribute '' @
                         quoted ''_descriptor_name'')), obj)
           | Some dn \<Rightarrow> (Some (AttributeError (dn @ '' has no setter'')), obj))
      | Some f \<Rightarrow> fn_call f (obj, v))"

text \<open>\<^verbatim>\<open>setter(self, value)\<close> assigns \<^verbatim>\<open>self._setter\<close> and returns \<^verbatim>\<open>self\<close>.\<close>

definition DBusProperty_setter ::
  "('o, 'r, 'v, 's, 'x) property_scheme \<Rightarrow> ('o \<times> 'v, py_exception option \<times> 'o) py_function \<Rightarrow>
   ('o, 'r, 'v, 's, 'x) property_scheme"
where
  "DBusProperty_setter p f = p\<lparr>priv_setter := Some f\<rparr>"

text \<open>
  The calls a property descriptor can receive, and the descriptor each leaves behind:
  only \<^verbatim>\<open>setter\<close> and a successful \<^verbatim>\<open>register_interface\<close> assign to it.
\<close>

datatype ('o, 'v, 'cb, 'z) property_call =
    Call_setter "('o \<times> 'v, py_exception option \<times> 'o) py_function"
  | Call_set 'o 'v
  | Call_get "'o option"
  | Call_register_interface "('cb, 'z) dbus_object_scheme"
  | Call_xml
  | Call_signature

fun property_after ::
  "('o, 'r, 'v, 's, 'x) property_scheme \<Rightarrow> ('o, 'v, 'cb, 'z) property_call \<Rightarrow>
   ('o, 'r, 'v, 's, 'x) property_scheme"
where
  "property_after p (Call_setter f) = DBusProperty_setter p f"
| "property_after p (Call_register_interface ob) =
     (case register_interface p ob of Inl e \<Rightarrow> p | Inr p' \<Rightarrow> p')"
| "property_after p (Call_set ob v) = p"
| "property_after p (Call_get ob) = p"
| "property_after p Call_xml = p"
| "property_after p Call_signature = p"


subsection \<open>\<^verbatim>\<open>_DBusSignal\<close>\<close>

record 's signal = descriptor_base +
  priv_signature :: 's

text \<open>
  \<^verbatim>\<open>_DBusSignal.__init__(self, types, named_types, interface, name)\<close>. The keyword
  dictionary is an association list in insertion order; the second argument of
  \<open>DBusSignature\<close> is \<open>None\<close> where the source passes no names.
\<close>

definition DBusSignal_init ::
  "('f, 'ty, 's) signature_module \<Rightarrow> 'ty list \<Rightarrow> (string \<times> 'ty) list \<Rightarrow>
   string option \<Rightarrow> string option \<Rightarrow> py_exception + 's signal"
where
  "DBusSignal_init M types named_types interface name =
     (let base = (DBusDescriptorBase_init M interface name)\<lparr>priv_list_name := Some ''_dbus_signals''\<rparr>
      in if types \<noteq> [] \<and> named_types \<noteq> [] then
           Inl (ValueError (''_DBusSignal'' @
                  '' receives either positional arguments or keyword arguments as the signal types, but not both.''))
         else
           (case (if named_types \<noteq> [] then
                    DBusSignature M (map snd named_types) (Some (map fst named_types))
                  else DBusSignature M types None) of
              Inl e \<Rightarrow> Inl e
            | Inr sg \<Rightarrow> Inr (descriptor_base.extend base (signal.fields sg))))"

definition DBusSignal_signature ::
  "('f, 'ty, 's) signature_module \<Rightarrow> ('s, 'x) signal_scheme \<Rightarrow> string"
where
  "DBusSignal_signature M g = sig_str M (priv_signature g)"

definition signal_arg :: "string option \<times> string option \<Rightarrow> element" where
  "signal_arg p =
     Element ''arg''
       ([(''type'', snd p)] @ (if str_truthy (fst p) then [(''name'', fst p)] else []))
       []"

definition DBusSignal_xml ::
  "('f, 'ty, 's) signature_module \<Rightarrow> ('s, 'x) signal_scheme \<Rightarrow> py_exception + element"
where
  "DBusSignal_xml M g =
     (case get_name g of
        Inl e \<Rightarrow> Inl e
      | Inr n \<Rightarrow>
          Inr (Element ''signal'' [(''name'', Some n)]
                 (map signal_arg
                    (zip_longest (or_empty (sig_names M (priv_signature g)))
                       (sig_iter M (priv_signature g))))))"

text \<open>
  An emission callback is called as \<^verbatim>\<open>callback(self, body=args)\<close>. It acts on the
  state of the program outside this module, \<open>'w\<close>, and returns normally (\<open>None\<close>)
  or raises.
\<close>

type_synonym ('g, 'args, 'w) emit_callback = "'g \<Rightarrow> 'args \<Rightarrow> 'w \<Rightarrow> py_exception option \<times> 'w"

text \<open>The message that the handler logs; \<open>repr_args\<close> is the text of \<^verbatim>\<open>{args}\<close>.\<close>

definition emit_log_message :: "string \<Rightarrow> string \<Rightarrow> py_exception \<Rightarrow> string" where
  "emit_log_message n repr_args e =
     ''An exception ocurred when try to emit signal '' @ n @ '' '' @ repr_args @ '': '' @
     exception_str e"

text \<open>
  The loop of \<^verbatim>\<open>emit_signal\<close> over the callbacks that are left. The state is the
  outside state and the records of the logger. \<^verbatim>\<open>except Exception\<close> lets a
  \<^verbatim>\<open>BaseException\<close> through; the handler's f-string reads \<^verbatim>\<open>self.name\<close>, whose
  own exception leaves the handler and the loop.
\<close>

fun emit_signal_loop ::
  "('args \<Rightarrow> string) \<Rightarrow> ('s, 'x) signal_scheme \<Rightarrow> 'args \<Rightarrow>
   (('s, 'x) signal_scheme, 'args, 'w) emit_callback list \<Rightarrow> 'w \<times> string list \<Rightarrow>
   py_exception option \<times> ('w \<times> string list)"
where
  "emit_signal_loop repr self args [] st = (None, st)"
| "emit_signal_loop repr self args (callback # rest) st =
     (case callback self args (fst st) of
        (None, w') \<Rightarrow> emit_signal_loop repr self args rest (w', snd st)
      | (Some e, w') \<Rightarrow>
          if is_Exception e then
            (case get_name self of
               Inl e' \<Rightarrow> (Some e', (w', snd st))
             | Inr n \<Rightarrow>
                 emit_signal_loop repr self args rest
                   (w', snd st @ [emit_log_message n (repr args) e]))
          else (Some e, (w', snd st)))"

text \<open>
  \<^verbatim>\<open>emit_signal_callback(self, owner)\<close> returns the closure \<^verbatim>\<open>emit_signal\<close>, which
  reads \<^verbatim>\<open>owner._emit_signal_callbacks\<close> when it is called.
\<close>

definition emit_signal_callback ::
  "('args \<Rightarrow> string) \<Rightarrow> ('s, 'x) signal_scheme \<Rightarrow>
   ((('s, 'x) signal_scheme, 'args, 'w) emit_callback, 'z) dbus_object_scheme \<Rightarrow>
   'args \<Rightarrow> 'w \<times> string list \<Rightarrow> py_exception option \<times> ('w \<times> string list)"
where
  "emit_signal_callback repr self owner =
     (\<lambda>args st. emit_signal_loop repr self args (priv_emit_signal_callbacks owner) st)"

text \<open>
  What each callback of a list returns or raises when the callbacks are called in order
  with the signal and the arguments, and the outside state after all of them.
\<close>

fun callback_outcomes ::
  "'g \<Rightarrow> 'args \<Rightarrow> ('g, 'args, 'w) emit_callback list \<Rightarrow> 'w \<Rightarrow> py_exception option list"
where
  "callback_outcomes self args [] w = []"
| "callback_outcomes self args (callback # rest) w =
     fst (callback self args w) # callback_outcomes self args rest (snd (callback self args w))"

fun callbacks_state ::
  "'g \<Rightarrow> 'args \<Rightarrow> ('g, 'args, 'w) emit_callback list \<Rightarrow> 'w \<Rightarrow> 'w"
where
  "callbacks_state self args [] w = w"
| "callbacks_state self args (callback # rest) w =
     callbacks_state self args rest (snd (callback self args w))"

text \<open>The exceptions among a list of outcomes, in order.\<close>

fun raised :: "py_exception option list \<Rightarrow> py_exception list" where
  "raised [] = []"
| "raised (None # os) = raised os"
| "raised (Some e # os) = e # raised os"

section \<open>\<^verbatim>\<open>DBusObject\<close>: the registry\<close>

text \<open>
  The class attributes that an instance reads through \<^verbatim>\<open>self\<close>: the three member
  lists, \<^verbatim>\<open>None\<close> until the first member of the kind is declared. \<open>type_dict\<close> is
  attribute lookup on the type for the names of property descriptors, which is how
  \<^verbatim>\<open>getattr(self, name)\<close> and \<^verbatim>\<open>setattr(self, name, value)\<close> find a data descriptor.
\<close>

record ('m, 'p, 'g) dbus_object_type =
  priv_dbus_methods :: "(string \<times> 'm) list option"
  priv_dbus_properties :: "(string \<times> 'p) list option"
  priv_dbus_signals :: "(string \<times> 'g) list option"
  type_dict :: "string \<Rightarrow> 'p option"

subsection \<open>\<^verbatim>\<open>register_server\<close>\<close>

text \<open>
  The server collaborator: its class name and its optional emission capability, called
  as \<^verbatim>\<open>emit_signal_callback(signal, path=path, body=body)\<close>.
\<close>

record 'scb dbus_server =
  server_class_name :: string
  server_emit_signal_callback :: "'scb option"

datatype py_warning = DBusObjectWarning string

text \<open>\<^verbatim>\<open>functools.partial(f, path=path)\<close>, called later as \<^verbatim>\<open>callback(signal, body=args)\<close>.\<close>

definition functools_partial ::
  "('g \<Rightarrow> string \<Rightarrow> 'args \<Rightarrow> 'w \<Rightarrow> py_exception option \<times> 'w) \<Rightarrow> string \<Rightarrow>
   ('g, 'args, 'w) emit_callback"
where
  "functools_partial f path = (\<lambda>sg body. f sg path body)"

text \<open>
  \<^verbatim>\<open>register_server(self, server, path)\<close>: the instance after the call and the
  warnings issued.
\<close>

definition register_server ::
  "('m, 'p, 'g0) dbus_object_type \<Rightarrow> (('g, 'args, 'w) emit_callback, 'z) dbus_object_scheme \<Rightarrow>
   ('g \<Rightarrow> string \<Rightarrow> 'args \<Rightarrow> 'w \<Rightarrow> py_exception option \<times> 'w, 'y) dbus_server_scheme \<Rightarrow> string \<Rightarrow>
   (('g, 'args, 'w) emit_callback, 'z) dbus_object_scheme \<times> py_warning list"
where
  "register_server T self server path =
     (if \<not> list_truthy (priv_dbus_signals T) then (self, [])
      else
        (case server_emit_signal_callback server of
           None \<Rightarrow>
             (self,
              [DBusObjectWarning
                 (''Object '' @ quoted (dbus_name self) @ '' emits signals but the server '' @
                  quoted (server_class_name server) @
                  '' does not support this. Signals will not be emitted.'')])
         | Some f \<Rightarrow>
             (self\<lparr>priv_emit_signal_callbacks :=
                     priv_emit_signal_callbacks self @ [functools_partial f path]\<rparr>,
              [])))"


subsection \<open>\<^verbatim>\<open>get_dbus_properties\<close>\<close>

text \<open>
  The generator mutates shared objects and its lambdas capture a variable of its frame,
  so this part works on an explicit store: the instance, the property descriptors by
  address (the member list and the type's namespace hold addresses), and the closure
  cells. A cell holds the current value of a captured local variable; it is empty
  until the variable is first bound.
\<close>

record ('o, 'pd) store =
  st_self :: 'o
  st_properties :: "nat \<Rightarrow> 'pd"
  st_cells :: "nat \<Rightarrow> string option"
  st_next_cell :: nat

text \<open>
  The two lambdas of a yielded triple. Each captures the cell of the frame's
  \<^verbatim>\<open>property_name\<close>, not the string that is in it.
\<close>

datatype closure = Getter_lambda nat | Setter_lambda nat

text \<open>
  A generator object: the cell of its frame's \<^verbatim>\<open>property_name\<close> and where it
  stands: not started, suspended at the \<^verbatim>\<open>yield\<close> with the pairs still to visit, or
  finished.
\<close>

datatype gen_pc = Created | Suspended "(string \<times> nat) list" | Finished

record generator =
  g_cell :: nat
  g_pc :: gen_pc

datatype 'a gen_result = Yield 'a | StopIteration | Raise py_exception

text \<open>Calling \<^verbatim>\<open>self.get_dbus_properties()\<close> creates the frame; nothing runs yet.\<close>

definition get_dbus_properties :: "('o, 'pd) store \<Rightarrow> generator \<times> ('o, 'pd) store" where
  "get_dbus_properties s =
     (\<lparr> g_cell = st_next_cell s, g_pc = Created \<rparr>,
      s\<lparr> st_cells := (st_cells s)(st_next_cell s := None),
         st_next_cell := Suc (st_next_cell s) \<rparr>)"

text \<open>
  One turn of the \<^verbatim>\<open>for\<close> loop: the target assignment rebinds \<^verbatim>\<open>property_name\<close>
  (the same cell every time), \<^verbatim>\<open>register_interface\<close> runs on the descriptor, and the
  triple is yielded.
\<close>

definition gen_loop ::
  "generator \<Rightarrow> (string \<times> nat) list \<Rightarrow>
   (('cb, 'z) dbus_object_scheme, ('o, 'r, 'v, 's, 'x) property_scheme) store \<Rightarrow>
   (closure \<times> closure \<times> nat) gen_result \<times> generator \<times>
   (('cb, 'z) dbus_object_scheme, ('o, 'r, 'v, 's, 'x) property_scheme) store"
where
  "gen_loop g items s =
     (case items of
        [] \<Rightarrow> (StopIteration, g\<lparr>g_pc := Finished\<rparr>, s)
      | (property_name, descriptor) # rest \<Rightarrow>
          (let s1 = s\<lparr>st_cells := (st_cells s)(g_cell g := Some property_name)\<rparr>
           in case register_interface (st_properties s1 descriptor) (st_self s1) of
                Inl e \<Rightarrow> (Raise e, g\<lparr>g_pc := Finished\<rparr>, s1)
              | Inr d' \<Rightarrow>
                  (Yield (Getter_lambda (g_cell g), Setter_lambda (g_cell g), descriptor),
                   g\<lparr>g_pc := Suspended rest\<rparr>,
                   s1\<lparr>st_properties := (st_properties s1)(descriptor := d')\<rparr>)))"

text \<open>\<^verbatim>\<open>next(gen)\<close>.\<close>

definition gen_next ::
  "('m, nat, 'g) dbus_object_type \<Rightarrow> generator \<Rightarrow>
   (('cb, 'z) dbus_object_scheme, ('o, 'r, 'v, 's, 'x) property_scheme) store \<Rightarrow>
   (closure \<times> closure \<times> nat) gen_result \<times> generator \<times>
   (('cb, 'z) dbus_object_scheme, ('o, 'r, 'v, 's, 'x) property_scheme) store"
where
  "gen_next T g s =
     (case g_pc g of
        Created \<Rightarrow>
          if \<not> list_truthy (priv_dbus_properties T) then (StopIteration, g\<lparr>g_pc := Finished\<rparr>, s)
          else gen_loop g (or_empty (priv_dbus_properties T)) s
      | Suspended rest \<Rightarrow> gen_loop g rest s
      | Finished \<Rightarrow> (StopIteration, g, s))"

text \<open>
  \<open>k\<close> calls of \<^verbatim>\<open>next\<close> in a row that each yield a triple: the triples, the
  generator and the store after them. \<open>None\<close> when one of the calls does not yield.
\<close>

fun gen_nexts ::
  "('m, nat, 'g) dbus_object_type \<Rightarrow> nat \<Rightarrow> generator \<Rightarrow>
   (('cb, 'z) dbus_object_scheme, ('o, 'r, 'v, 's, 'x) property_scheme) store \<Rightarrow>
   ((closure \<times> closure \<times> nat) list \<times> generator \<times>
    (('cb, 'z) dbus_object_scheme, ('o, 'r, 'v, 's, 'x) property_scheme) store) option"
where
  "gen_nexts T 0 g s = Some ([], g, s)"
| "gen_nexts T (Suc k) g s =
     (case gen_next T g s of
        (Yield t, g', s') \<Rightarrow>
          (case gen_nexts T k g' s' of
             None \<Rightarrow> None
           | Some (ts, g'', s'') \<Rightarrow> Some (t # ts, g'', s''))
      | (StopIteration, g', s') \<Rightarrow> None
      | (Raise e, g', s') \<Rightarrow> None)"

text \<open>
  \<^verbatim>\<open>getattr(self, name)\<close> and \<^verbatim>\<open>setattr(self, name, value)\<close> for the name of a
  property: the data descriptor found on the type is asked. A name without a descriptor
  is an attribute of the instance itself, outside this store: reading it fails, writing
  it changes nothing here.
\<close>

definition getattr_property ::
  "('m, nat, 'g) dbus_object_type \<Rightarrow> ('o, ('o, 'r, 'v, 's, 'x) property_scheme) store \<Rightarrow> string \<Rightarrow>
   py_exception + (('o option, py_exception + 'r) py_function, 'o, 'r) attr_value"
where
  "getattr_property T s n =
     (case type_dict T n of
        None \<Rightarrow> Inl (AttributeError n)
      | Some a \<Rightarrow> DBusProperty_get (st_properties s a) (Some (st_self s)))"

definition setattr_property ::
  "('m, nat, 'g) dbus_object_type \<Rightarrow> ('o, ('o, 'r, 'v, 's, 'x) property_scheme) store \<Rightarrow> string \<Rightarrow>
   'v \<Rightarrow> py_exception option \<times> ('o, ('o, 'r, 'v, 's, 'x) property_scheme) store"
where
  "setattr_property T s n v =
     (case type_dict T n of
        None \<Rightarrow> (None, s)
      | Some a \<Rightarrow>
          (case DBusProperty_set (st_properties s a) (st_self s) v of
             (r, self') \<Rightarrow> (r, s\<lparr>st_self := self'\<rparr>)))"

text \<open>
  Calling a lambda: the body reads the cell when it runs. A getter closure takes no
  argument, a setter closure one.
\<close>

definition call_getter ::
  "('m, nat, 'g) dbus_object_type \<Rightarrow> closure \<Rightarrow>
   ('o, ('o, 'r, 'v, 's, 'x) property_scheme) store \<Rightarrow>
   py_exception + (('o option, py_exception + 'r) py_function, 'o, 'r) attr_value"
where
  "call_getter T c s =
     (case c of
        Getter_lambda cell \<Rightarrow>
          (case st_cells s cell of
             None \<Rightarrow> Inl (Raised ''NameError'')
           | Some property_name \<Rightarrow> getattr_property T s property_name)
      | Setter_lambda cell \<Rightarrow> Inl (Raised ''TypeError''))"

definition call_setter ::
  "('m, nat, 'g) dbus_object_type \<Rightarrow> closure \<Rightarrow> 'v \<Rightarrow>
   ('o, ('o, 'r, 'v, 's, 'x) property_scheme) store \<Rightarrow>
   py_exception option \<times> ('o, ('o, 'r, 'v, 's, 'x) property_scheme) store"
where
  "call_setter T c v s =
     (case c of
        Setter_lambda cell \<Rightarrow>
          (case st_cells s cell of
             None \<Rightarrow> (Some (Raised ''NameError''), s)
           | Some property_name \<Rightarrow> setattr_property T s property_name v)
      | Getter_lambda cell \<Rightarrow> (Some (Raised ''TypeError''), s))"

text \<open>
  The pairs that a generator has still to visit: the whole member list before the first
  \<^verbatim>\<open>next\<close>, the rest of it at a \<^verbatim>\<open>yield\<close>.
\<close>

definition remaining :: "('m, nat, 'g) dbus_object_type \<Rightarrow> generator \<Rightarrow> (string \<times> nat) list" where
  "remaining T g =
     (case g_pc g of
        Created \<Rightarrow> or_empty (priv_dbus_properties T)
      | Suspended rest \<Rightarrow> rest
      | Finished \<Rightarrow> [])"

section \<open>Concrete inputs\<close>

text \<open>
  A type with two properties, \<^verbatim>\<open>volume\<close> and \<^verbatim>\<open>balance\<close>, each a getter that reads
  the attribute of the same name from the instance and a setter that assigns it.
\<close>

record 'cb player = "'cb dbus_object" +
  volume :: int
  balance :: int

definition player1 :: "unit player" where
  "player1 =
     \<lparr> is_dbus_object = True, priv_emit_signal_callbacks = [],
       priv_dbus_name = ''Player'', default_interface_root = Some ''com.example'',
       volume = 7, balance = 0 \<rparr>"

definition volume_getter :: "(unit player option, py_exception + int) py_function" where
  "volume_getter =
     \<lparr> fn_name = ''volume'',
       fn_call = (\<lambda>obj. case obj of
                    None \<Rightarrow> Inl (AttributeError ''NoneType object has no attribute volume'')
                  | Some ob \<Rightarrow> Inr (volume ob)) \<rparr>"

definition balance_getter :: "(unit player option, py_exception + int) py_function" where
  "balance_getter =
     \<lparr> fn_name = ''balance'',
       fn_call = (\<lambda>obj. case obj of
                    None \<Rightarrow> Inl (AttributeError ''NoneType object has no attribute balance'')
                  | Some ob \<Rightarrow> Inr (balance ob)) \<rparr>"

definition volume_setter :: "(unit player \<times> int, py_exception option \<times> unit player) py_function" where
  "volume_setter =
     \<lparr> fn_name = ''volume'', fn_call = (\<lambda>(ob, v). (None, ob\<lparr>volume := v\<rparr>)) \<rparr>"

definition balance_setter :: "(unit player \<times> int, py_exception option \<times> unit player) py_function" where
  "balance_setter =
     \<lparr> fn_name = ''balance'', fn_call = (\<lambda>(ob, v). (None, ob\<lparr>balance := v\<rparr>)) \<rparr>"

text \<open>
  Modelled from the spec: an instance of the signature module
  (\<^verbatim>\<open>dbus_objects/signature.py\<close> is not part of the sources at hand), used only to
  evaluate the functions above on concrete inputs; every theorem below is stated for an
  arbitrary module. A signature is its sequence of type codes with its optional
  names, rendered by concatenating the codes, and always true; a Python type is given
  by its DBus code; \<open>example_dbus_case\<close> turns \<^verbatim>\<open>snake_case\<close> into \<^verbatim>\<open>CamelCase\<close>; the
  resolver answers for a getter annotated \<^verbatim>\<open>(self) -> int\<close>.
\<close>

type_synonym example_signature = "string list \<times> string list option"

definition upper_char :: "char \<Rightarrow> char" where
  "upper_char c =
     (case map_of (zip ''abcdefghijklmnopqrstuvwxyz'' ''ABCDEFGHIJKLMNOPQRSTUVWXYZ'') c of
        None \<Rightarrow> c
      | Some u \<Rightarrow> u)"

fun camel :: "bool \<Rightarrow> string \<Rightarrow> string" where
  "camel up [] = []"
| "camel up (c # cs) =
     (if c = CHR ''_'' then camel True cs
      else (if up then upper_char c else c) # camel False cs)"

definition example_dbus_case :: "string \<Rightarrow> string" where
  "example_dbus_case s = camel True s"

definition example_module ::
  "((unit player option, py_exception + int) py_function, string, example_signature)
   signature_module"
where
  "example_module =
     \<lparr> dbus_case = example_dbus_case,
       from_parameters = (\<lambda>f. Inr ([], None)),
       from_return = (\<lambda>f names multiple. Inr ([''i''], None)),
       DBusSignature = (\<lambda>types names. Inr (types, names)),
       sig_str = (\<lambda>sg. concat (fst sg)),
       sig_iter = fst,
       sig_names = snd,
       sig_bool = (\<lambda>sg. True) \<rparr>"

text \<open>
  The owner of the spec's example: DBus object name \<^verbatim>\<open>Thing\<close>, default interface
  root \<^verbatim>\<open>com.example\<close>; and the same object without a root.
\<close>

type_synonym example_callback = "(example_signature signal, nat list, nat list list) emit_callback"

definition thing :: "example_callback dbus_object" where
  "thing =
     \<lparr> is_dbus_object = True, priv_emit_signal_callbacks = [],
       priv_dbus_name = ''Thing'', default_interface_root = Some ''com.example'' \<rparr>"

definition rootless_thing :: "example_callback dbus_object" where
  "rootless_thing = thing\<lparr>default_interface_root := None\<rparr>"

text \<open>Two members declared without an interface: a plain descriptor and a signal.\<close>

definition member_a :: descriptor_base where
  "member_a = DBusDescriptorBase_init example_module None (Some ''get_value'')"

definition member_b :: "example_signature signal" where
  "member_b =
     descriptor_base.extend
       ((DBusDescriptorBase_init example_module None (Some ''value_changed''))
          \<lparr>priv_list_name := Some ''_dbus_signals''\<rparr>)
       (signal.fields ([''i''], None))"

text \<open>
  The descriptor of \<^verbatim>\<open>volume\<close> after class creation, without a setter, and the
  descriptor of \<^verbatim>\<open>balance\<close> with one.
\<close>

definition volume_property :: "(unit player, int, int, example_signature) property" where
  "volume_property =
     \<lparr> priv_interface_orig = None, priv_interface = None,
       priv_name = Some ''Volume'', priv_list_name = Some ''_dbus_properties'',
       priv_descriptor_name = Some ''volume'',
       priv_func = volume_getter, priv_return_names = [], priv_multiple_returns = False,
       priv_input_signature = ([], None), priv_output_signature = ([''i''], None),
       priv_setter = None \<rparr>"

definition balance_property :: "(unit player, int, int, example_signature) property" where
  "balance_property =
     volume_property
       \<lparr> priv_name := Some ''Balance'', priv_descriptor_name := Some ''balance'',
         priv_func := balance_getter, priv_setter := Some balance_setter \<rparr>"

text \<open>The descriptor of \<^verbatim>\<open>volume\<close> as the decorator returns it, before \<^verbatim>\<open>__set_name__\<close>.\<close>

definition unbound_property :: "(unit player, int, int, example_signature) property" where
  "unbound_property = volume_property\<lparr>priv_descriptor_name := None\<rparr>"

text \<open>
  A method descriptor for \<^verbatim>\<open>def set_label(self, index: int, label: str) -> None\<close>
  with its two signatures: two input slots, no output slot.
\<close>

definition set_label_method ::
  "(unit player option \<times> int \<times> string, py_exception + unit, example_signature) method_base"
where
  "set_label_method =
     \<lparr> priv_interface_orig = None, priv_interface = None,
       priv_name = Some ''SetLabel'', priv_list_name = Some ''_dbus_methods'',
       priv_descriptor_name = Some ''set_label'',
       priv_func = \<lparr> fn_name = ''set_label'', fn_call = (\<lambda>a. Inr ()) \<rparr>,
       priv_return_names = [], priv_multiple_returns = False,
       priv_input_signature = ([''i'', ''s''], Some [''index'', ''label'']),
       priv_output_signature = ([], None) \<rparr>"

text \<open>
  Two subscribers: the first raises, the second appends the body it receives to the
  outside state. \<open>example_repr\<close> is \<^verbatim>\<open>repr\<close> on the one tuple used.
\<close>

definition failing_callback :: example_callback where
  "failing_callback = (\<lambda>sg body w. (Some (Raised ''boom''), w))"

definition recording_callback :: example_callback where
  "recording_callback = (\<lambda>sg body w. (None, w @ [body]))"

definition example_repr :: "nat list \<Rightarrow> string" where
  "example_repr args = (if args = [1, 2] then ''(1, 2)'' else ''(...)'')"

definition subscribed_thing :: "example_callback dbus_object" where
  "subscribed_thing =
     thing\<lparr>priv_emit_signal_callbacks := [failing_callback, recording_callback]\<rparr>"

text \<open>
  A subscriber that raises \<^verbatim>\<open>KeyboardInterrupt\<close>, which is not an \<^verbatim>\<open>Exception\<close>, in
  front of the recording one; and the signal \<^verbatim>\<open>dbus_signal(int)\<close> as the constructor
  returns it, with no name yet.
\<close>

definition interrupting_callback :: example_callback where
  "interrupting_callback = (\<lambda>sg body w. (Some (BaseRaised ''KeyboardInterrupt''), w))"

definition interrupted_thing :: "example_callback dbus_object" where
  "interrupted_thing =
     thing\<lparr>priv_emit_signal_callbacks := [interrupting_callback, recording_callback]\<rparr>"

definition unnamed_signal :: "example_signature signal" where
  "unnamed_signal = member_b\<lparr>priv_name := None\<rparr>"

text \<open>A type that declares one signal, and servers with and without the capability.\<close>

definition signalling_type :: "(unit, unit, example_signature signal) dbus_object_type" where
  "signalling_type =
     \<lparr> priv_dbus_methods = None, priv_dbus_properties = None,
       priv_dbus_signals = Some [(''value_changed'', member_b)],
       type_dict = (\<lambda>n. None) \<rparr>"

definition silent_type :: "(unit, unit, example_signature signal) dbus_object_type" where
  "silent_type = signalling_type\<lparr>priv_dbus_signals := None\<rparr>"

definition recording_server ::
  "(example_signature signal \<Rightarrow> string \<Rightarrow> nat list \<Rightarrow> nat list list \<Rightarrow>
    py_exception option \<times> nat list list) dbus_server"
where
  "recording_server =
     \<lparr> server_class_name = ''DBusServer'',
       server_emit_signal_callback = Some (\<lambda>sg path body w. (None, w @ [body])) \<rparr>"

definition mute_server ::
  "(example_signature signal \<Rightarrow> string \<Rightarrow> nat list \<Rightarrow> nat list list \<Rightarrow>
    py_exception option \<times> nat list list) dbus_server"
where
  "mute_server = recording_server\<lparr>server_emit_signal_callback := None\<rparr>"

text \<open>
  The player type: \<^verbatim>\<open>volume\<close> at address 0 and \<^verbatim>\<open>balance\<close> at address 1, both with
  a setter, and a store with one instance and no generator yet.
\<close>

definition player_type :: "(unit, nat, unit) dbus_object_type" where
  "player_type =
     \<lparr> priv_dbus_methods = None,
       priv_dbus_properties = Some [(''volume'', 0), (''balance'', 1)],
       priv_dbus_signals = None,
       type_dict = map_of [(''volume'', 0), (''balance'', 1)] \<rparr>"

definition player_store ::
  "(unit player, (unit player, int, int, example_signature) property) store"
where
  "player_store =
     \<lparr> st_self = player1,
       st_properties =
         (\<lambda>a. if a = 0 then DBusProperty_setter volume_property volume_setter
              else balance_property),
       st_cells = (\<lambda>c. None),
       st_next_cell = 0 \<rparr>"

section \<open>Interface resolution and names\<close>

text \<open>
  C1. For a member descriptor declared without an interface, \<^verbatim>\<open>register_interface\<close>
  with an owner whose default interface root is set stores the interface
  \<^verbatim>\<open>{default_interface_root}.{owner_dbus_name}\<close>, which the interface getter then
  returns; with an owner that has no default interface root it raises instead, and
  what it raises is \<^verbatim>\<open>DBusObjectException\<close> with the member's name in the message
  (the exception of the name getter when the descriptor has no name yet).
\<close>

theorem register_interface_default_root:
  assumes "\<not> str_truthy (priv_interface_orig d)"
  shows "(default_interface_root obj = Some root \<and> root \<noteq> [] \<longrightarrow>
            register_interface d obj =
              Inr (d\<lparr>priv_interface := Some (root @ ''.'' @ priv_dbus_name obj)\<rparr>) \<and>
            get_interface (d\<lparr>priv_interface := Some (root @ ''.'' @ priv_dbus_name obj)\<rparr>) =
              Inr (root @ ''.'' @ priv_dbus_name obj)) \<and>
         (\<not> str_truthy (default_interface_root obj) \<longrightarrow>
            register_interface d obj =
              Inl (case get_name d of
                     Inl e \<Rightarrow> e
                   | Inr n \<Rightarrow> DBusObjectException (''Missing interface in DBus method: '' @ n)))"
  using assms
  by (auto simp: register_interface_def get_interface_def split: option.splits sum.splits)

text \<open>
  The spec's example: two members without an interface on the owner \<^verbatim>\<open>Thing\<close> with
  root \<^verbatim>\<open>com.example\<close> both resolve \<^verbatim>\<open>com.example.Thing\<close>; without a root the
  declaration error is raised.
\<close>

theorem register_interface_default_root_witness:
  "\<not> str_truthy (priv_interface_orig member_a) \<and>
   \<not> str_truthy (priv_interface_orig member_b) \<and>
   default_interface_root thing = Some ''com.example'' \<and>
   \<not> str_truthy (default_interface_root rootless_thing) \<and>
   (case register_interface member_a thing of
      Inl e \<Rightarrow> False | Inr d' \<Rightarrow> get_interface d' = Inr ''com.example.Thing'') \<and>
   (case register_interface member_b thing of
      Inl e \<Rightarrow> False | Inr d' \<Rightarrow> get_interface d' = Inr ''com.example.Thing'') \<and>
   register_interface member_a rootless_thing =
     Inl (DBusObjectException ''Missing interface in DBus method: GetValue'')"
proof -
  have a: "\<not> str_truthy (priv_interface_orig member_a)"
    by (simp add: member_a_def DBusDescriptorBase_init_def)
  have b: "\<not> str_truthy (priv_interface_orig member_b)"
    by (simp add: member_b_def DBusDescriptorBase_init_def descriptor_base.extend_def)
  have na: "get_name member_a = Inr ''GetValue''"
    by (simp add: member_a_def DBusDescriptorBase_init_def get_name_def example_module_def
        example_dbus_case_def upper_char_def)
  show ?thesis
    using a b na
      register_interface_default_root [OF a, of thing "''com.example''"]
      register_interface_default_root [OF b, of thing "''com.example''"]
      register_interface_default_root [OF a, of rootless_thing "[]"]
    by (simp add: thing_def rootless_thing_def)
qed

text \<open>
  C10. A member name supplied explicitly is stored as \<open>dbus_case\<close> of it, by the base
  initialiser and by the initialiser of methods and properties alike, which is the
  conversion that a name defaulted from the function gets; the name getter returns
  the converted form (it raises only if the conversion yields the empty string).
\<close>

theorem explicit_name_dbus_case:
  assumes "n \<noteq> []"
  shows "priv_name (DBusDescriptorBase_init M iface (Some n)) = Some (dbus_case M n) \<and>
         (DBusMethodBase_init M func iface (Some n) rn mr = Inr d \<longrightarrow>
            priv_name d = Some (dbus_case M n)) \<and>
         (fn_name func \<noteq> [] \<and> DBusMethodBase_init M func iface None rn mr = Inr d0 \<longrightarrow>
            priv_name d0 = Some (dbus_case M (fn_name func))) \<and>
         (dbus_case M n \<noteq> [] \<longrightarrow>
            get_name (DBusDescriptorBase_init M iface (Some n)) = Inr (dbus_case M n) \<and>
            (DBusMethodBase_init M func iface (Some n) rn mr = Inr d \<longrightarrow>
               get_name d = Inr (dbus_case M n)))"
  using assms
  by (auto simp: DBusDescriptorBase_init_def DBusMethodBase_init_def get_name_def Let_def
      split: sum.splits)

theorem explicit_name_dbus_case_witness:
  "''get_volume'' \<noteq> [] \<and> dbus_case example_module ''get_volume'' \<noteq> [] \<and>
   fn_name volume_getter \<noteq> [] \<and>
   (case DBusMethodBase_init example_module volume_getter None (Some ''get_volume'') None False of
      Inl e \<Rightarrow> False
    | Inr d \<Rightarrow> priv_name d = Some ''GetVolume'' \<and> get_name d = Inr ''GetVolume'') \<and>
   (case DBusMethodBase_init example_module volume_getter None None None False of
      Inl e \<Rightarrow> False
    | Inr d \<Rightarrow> priv_name d = Some ''Volume'')"
proof -
  obtain d where d:
    "DBusMethodBase_init example_module volume_getter None (Some ''get_volume'') None False = Inr d"
    by (simp add: DBusMethodBase_init_def example_module_def Let_def)
  obtain d0 where d0:
    "DBusMethodBase_init example_module volume_getter None None None False = Inr d0"
    by (simp add: DBusMethodBase_init_def example_module_def Let_def)
  have n: "''get_volume'' \<noteq> []" by simp
  have c: "dbus_case example_module ''get_volume'' = ''GetVolume''"
    by (simp add: example_module_def example_dbus_case_def upper_char_def)
  have f: "fn_name volume_getter = ''volume''"
    by (simp add: volume_getter_def)
  have c0: "dbus_case example_module ''volume'' = ''Volume''"
    by (simp add: example_module_def example_dbus_case_def upper_char_def)
  show ?thesis
    using explicit_name_dbus_case [OF n, where M = example_module and iface = None
        and func = volume_getter and rn = None and mr = False and d = d and ?d0.0 = d0]
      d d0 c f c0
    by simp
qed

section \<open>Reading and writing members\<close>

lemma register_interface_priv_func:
  "register_interface d ob = Inr d' \<Longrightarrow> priv_func d' = priv_func d"
  by (auto simp: register_interface_def split: if_splits option.splits sum.splits)

text \<open>
  C3, as the code has it. A method read on the type is the raw function, not called;
  read on an instance it is the function bound to that instance, once
  \<^verbatim>\<open>register_interface\<close> has succeeded on the instance, and the exception of
  \<^verbatim>\<open>register_interface\<close> otherwise. A property read on an instance is not a callable:
  it is the value that the function returns when it is called with the instance.
\<close>

theorem member_access:
  "DBusMethodBase_get d (None :: ('cb, 'z) dbus_object_scheme option) =
     Inr (Function (priv_func d), d) \<and>
   (register_interface d (ob :: ('cb, 'z) dbus_object_scheme) = Inr d' \<longrightarrow>
      DBusMethodBase_get d (Some ob) = Inr (MethodType (priv_func d) ob, d')) \<and>
   (register_interface d ob = Inl e \<longrightarrow> DBusMethodBase_get d (Some ob) = Inl e) \<and>
   DBusProperty_get p (Some inst) =
     (case fn_call (priv_func p) (Some inst) of Inl e \<Rightarrow> Inl e | Inr r \<Rightarrow> Inr (Value r))"
  by (auto simp: DBusMethodBase_get_def DBusProperty_get_def register_interface_priv_func)

theorem member_access_witness:
  "DBusMethodBase_get set_label_method (None :: example_callback dbus_object option) =
     Inr (Function (priv_func set_label_method), set_label_method) \<and>
   register_interface set_label_method thing =
     Inr (set_label_method\<lparr>priv_interface := Some ''com.example.Thing''\<rparr>) \<and>
   register_interface set_label_method rootless_thing =
     Inl (DBusObjectException ''Missing interface in DBus method: SetLabel'') \<and>
   DBusMethodBase_get set_label_method (Some thing) =
     Inr (MethodType (priv_func set_label_method) thing,
          set_label_method\<lparr>priv_interface := Some ''com.example.Thing''\<rparr>) \<and>
   DBusMethodBase_get set_label_method (Some rootless_thing) =
     Inl (DBusObjectException ''Missing interface in DBus method: SetLabel'') \<and>
   DBusProperty_get volume_property (Some player1) = Inr (Value 7)"
proof -
  have r: "register_interface set_label_method thing =
             Inr (set_label_method\<lparr>priv_interface := Some ''com.example.Thing''\<rparr>)"
    by (simp add: register_interface_def set_label_method_def thing_def)
  have l: "register_interface set_label_method rootless_thing =
             Inl (DBusObjectException ''Missing interface in DBus method: SetLabel'')"
    by (simp add: register_interface_def set_label_method_def thing_def rootless_thing_def
        get_name_def)
  have v: "fn_call (priv_func volume_property) (Some player1) = Inr 7"
    by (simp add: volume_property_def volume_getter_def player1_def)
  show ?thesis
    using r l v
      member_access [where d = set_label_method and ob = thing
        and d' = "set_label_method\<lparr>priv_interface := Some ''com.example.Thing''\<rparr>"
        and p = volume_property and inst = player1]
      member_access [where d = set_label_method and ob = rootless_thing
        and e = "DBusObjectException ''Missing interface in DBus method: SetLabel''"
        and p = volume_property and inst = player1]
    by simp
qed

text \<open>
  C3 does not extend to properties: reading \<^verbatim>\<open>volume\<close> on an instance
  yields the value 7, not a bound method, and reading it on the type calls the getter
  with \<^verbatim>\<open>None\<close> (here the getter's own \<^verbatim>\<open>AttributeError\<close>) instead of returning the
  function.
\<close>

theorem property_access_counterexample:
  "DBusProperty_get volume_property (Some player1) = Inr (Value 7) \<and>
   DBusProperty_get volume_property (Some player1) \<noteq>
     Inr (MethodType (priv_func volume_property) player1) \<and>
   DBusProperty_get volume_property None =
     Inl (AttributeError ''NoneType object has no attribute volume'') \<and>
   DBusProperty_get volume_property None \<noteq> Inr (Function (priv_func volume_property))"
  by (simp add: DBusProperty_get_def volume_property_def volume_getter_def player1_def)

text \<open>
  C5. The \<^verbatim>\<open>property\<close> element carries \<^verbatim>\<open>access="read"\<close> when no setter is attached
  and \<^verbatim>\<open>access="readwrite"\<close> when one is; the element is produced when both
  signature objects are true and the name is set.
\<close>

theorem property_xml_access:
  assumes "sig_bool M (priv_input_signature p)" and "sig_bool M (priv_output_signature p)"
    and "get_name p = Inr n"
  shows "DBusProperty_xml M p =
           Inr (Element ''property''
                  [(''name'', Some n),
                   (''type'', Some (sig_str M (priv_output_signature p))),
                   (''access'', Some (if priv_setter p = None then ''read'' else ''readwrite''))]
                  []) \<and>
         DBusProperty_xml M (DBusProperty_setter p f) =
           Inr (Element ''property''
                  [(''name'', Some n),
                   (''type'', Some (sig_str M (priv_output_signature p))),
                   (''access'', Some ''readwrite'')]
                  [])"
  using assms
  by (simp add: DBusProperty_xml_def DBusProperty_signature_def DBusProperty_setter_def
      get_name_def)

theorem property_xml_access_witness:
  "sig_bool example_module (priv_input_signature volume_property) \<and>
   sig_bool example_module (priv_output_signature volume_property) \<and>
   get_name volume_property = Inr ''Volume'' \<and>
   DBusProperty_xml example_module volume_property =
     Inr (Element ''property''
            [(''name'', Some ''Volume''), (''type'', Some ''i''), (''access'', Some ''read'')] []) \<and>
   DBusProperty_xml example_module (DBusProperty_setter volume_property volume_setter) =
     Inr (Element ''property''
            [(''name'', Some ''Volume''), (''type'', Some ''i''), (''access'', Some ''readwrite'')]
            [])"
proof -
  have i: "sig_bool example_module (priv_input_signature volume_property)"
    and o: "sig_bool example_module (priv_output_signature volume_property)"
    by (simp_all add: example_module_def)
  have n: "get_name volume_property = Inr ''Volume''"
    by (simp add: get_name_def volume_property_def)
  have s: "sig_str example_module (priv_output_signature volume_property) = ''i''"
    and ns: "priv_setter volume_property = None"
    by (simp_all add: example_module_def volume_property_def)
  show ?thesis
    using i o n s ns property_xml_access [OF i o n, of volume_setter] by simp
qed

lemma property_after_keeps_setter:
  "priv_setter p \<noteq> None \<Longrightarrow> priv_setter (property_after p c) \<noteq> None"
  by (cases c)
    (auto simp: DBusProperty_setter_def register_interface_def
      split: if_splits option.splits sum.splits)

lemma property_calls_keep_setter:
  "priv_setter p \<noteq> None \<Longrightarrow> priv_setter (foldl property_after p cs) \<noteq> None"
proof (induction cs arbitrary: p)
  case Nil
  then show ?case by simp
next
  case (Cons c cs)
  from Cons.prems have "priv_setter (property_after p c) \<noteq> None"
    by (rule property_after_keeps_setter)
  then have "priv_setter (foldl property_after (property_after p c) cs) \<noteq> None"
    by (rule Cons.IH)
  then show ?case by simp
qed

text \<open>
  C7. Writing a property that has no setter raises the no-setter \<^verbatim>\<open>AttributeError\<close>
  and leaves the instance and the descriptor as they were; \<^verbatim>\<open>setter(fn)\<close> returns the
  descriptor with \<^verbatim>\<open>fn\<close> attached, after which a write is the call of \<^verbatim>\<open>fn\<close> with the
  instance and the value; and no sequence of calls on the descriptor detaches a setter.
\<close>

theorem property_set_setter:
  "(priv_setter p = None \<longrightarrow>
      DBusProperty_set p obj v =
        (Some (AttributeError
                 (case priv_descriptor_name p of
                    None \<Rightarrow>
                      quoted ''_DBusProperty'' @ '' object has no attribute '' @
                      quoted ''_descriptor_name''
                  | Some dn \<Rightarrow> dn @ '' has no setter'')), obj)) \<and>
   property_after p (Call_set obj v) = p \<and>
   DBusProperty_setter p f = p\<lparr>priv_setter := Some f\<rparr> \<and>
   DBusProperty_set (DBusProperty_setter p f) obj v = fn_call f (obj, v) \<and>
   priv_setter (foldl property_after (DBusProperty_setter p f) cs) \<noteq> None"
proof -
  have "priv_setter (DBusProperty_setter p f) \<noteq> None"
    by (simp add: DBusProperty_setter_def)
  then have "priv_setter (foldl property_after (DBusProperty_setter p f) cs) \<noteq> None"
    by (rule property_calls_keep_setter)
  then show ?thesis
    by (auto simp: DBusProperty_set_def DBusProperty_setter_def split: option.splits)
qed

theorem property_set_setter_witness:
  "priv_setter volume_property = None \<and>
   DBusProperty_set volume_property player1 5 =
     (Some (AttributeError ''volume has no setter''), player1) \<and>
   priv_setter unbound_property = None \<and>
   DBusProperty_set unbound_property player1 5 =
     (Some (AttributeError
              (quoted ''_DBusProperty'' @ '' object has no attribute '' @
               quoted ''_descriptor_name'')), player1) \<and>
   DBusProperty_set (DBusProperty_setter volume_property volume_setter) player1 5 =
     (None, player1\<lparr>volume := 5\<rparr>) \<and>
   priv_setter
     (foldl property_after (DBusProperty_setter volume_property volume_setter)
        [Call_register_interface thing, Call_set player1 5, Call_get None, Call_xml]) \<noteq> None"
proof -
  have ns: "priv_setter volume_property = None"
    and dn: "priv_descriptor_name volume_property = Some ''volume''"
    by (simp_all add: volume_property_def)
  have call: "fn_call volume_setter (player1, 5) = (None, player1\<lparr>volume := 5\<rparr>)"
    by (simp add: volume_setter_def)
  note t = property_set_setter [where p = volume_property and obj = player1 and v = 5
      and f = volume_setter
      and cs = "[Call_register_interface thing, Call_set player1 5, Call_get None, Call_xml]"]
  have a: "DBusProperty_set volume_property player1 5 =
             (Some (AttributeError ''volume has no setter''), player1)"
    using t ns dn by simp
  have nu: "priv_setter unbound_property = None"
    and du: "priv_descriptor_name unbound_property = None"
    by (simp_all add: unbound_property_def volume_property_def)
  have u: "DBusProperty_set unbound_property player1 5 =
             (Some (AttributeError
                      (quoted ''_DBusProperty'' @ '' object has no attribute '' @
                       quoted ''_descriptor_name'')), player1)"
    using property_set_setter [where p = unbound_property and obj = player1 and v = 5
        and f = volume_setter and cs = "[]"] nu du
    by simp
  have b: "DBusProperty_set (DBusProperty_setter volume_property volume_setter) player1 5 =
             (None, player1\<lparr>volume := 5\<rparr>)"
  proof -
    from t have "DBusProperty_set (DBusProperty_setter volume_property volume_setter) player1 5 =
                   fn_call volume_setter (player1, 5)"
      by (elim conjE)
    with call show ?thesis by (simp only:)
  qed
  have k: "priv_setter
     (foldl property_after (DBusProperty_setter volume_property volume_setter)
        [Call_register_interface thing, Call_set player1 5, Call_get None, Call_xml]) \<noteq> None"
    using t by (elim conjE)
  from ns a nu u b k show ?thesis by (intro conjI)
qed

section \<open>Signals\<close>

text \<open>
  C6. Constructing a signal with both a non-empty positional type sequence and a
  non-empty named type mapping raises \<^verbatim>\<open>ValueError\<close>; with only named types the
  signature is built from the mapping's values and keys, with only positional types
  (or neither) from the positional sequence, and the construction succeeds with that
  signature whenever the signature constructor accepts the types.
\<close>

theorem signal_init_shapes:
  "(types \<noteq> [] \<and> named_types \<noteq> [] \<longrightarrow>
      DBusSignal_init M types named_types iface nm =
        Inl (ValueError (''_DBusSignal'' @
               '' receives either positional arguments or keyword arguments as the signal types, but not both.''))) \<and>
   (types = [] \<and> named_types \<noteq> [] \<and>
    DBusSignature M (map snd named_types) (Some (map fst named_types)) = Inr sg \<longrightarrow>
      (\<exists>g. DBusSignal_init M types named_types iface nm = Inr g \<and> priv_signature g = sg)) \<and>
   (named_types = [] \<and> DBusSignature M types None = Inr sg \<longrightarrow>
      (\<exists>g. DBusSignal_init M types named_types iface nm = Inr g \<and> priv_signature g = sg))"
  by (auto simp: DBusSignal_init_def Let_def descriptor_base.extend_def signal.fields_def)

theorem signal_init_shapes_witness:
  "(\<exists>m. DBusSignal_init example_module [''i''] [(''level'', ''s'')] None None = Inl (ValueError m)) \<and>
   (case DBusSignal_init example_module [] [(''level'', ''s'')] None None of
      Inl e \<Rightarrow> False | Inr g \<Rightarrow> priv_signature g = ([''s''], Some [''level''])) \<and>
   (case DBusSignal_init example_module [''i'', ''s''] [] None None of
      Inl e \<Rightarrow> False | Inr g \<Rightarrow> priv_signature g = ([''i'', ''s''], None)) \<and>
   (case DBusSignal_init example_module [] [] None None of
      Inl e \<Rightarrow> False | Inr g \<Rightarrow> priv_signature g = ([], None))"
proof -
  have s1: "DBusSignature example_module (map snd [(''level'', ''s'')])
              (Some (map fst [(''level'', ''s'')])) = Inr ([''s''], Some [''level''])"
    and s2: "DBusSignature example_module [''i'', ''s''] None = Inr ([''i'', ''s''], None)"
    and s3: "DBusSignature example_module [] None = Inr ([], None)"
    by (simp_all add: example_module_def)
  from signal_init_shapes [where types = "[''i'']" and named_types = "[(''level'', ''s'')]"
      and M = example_module and iface = None and nm = None]
  have both: "\<exists>m. DBusSignal_init example_module [''i''] [(''level'', ''s'')] None None =
                Inl (ValueError m)"
    by simp
  from signal_init_shapes [where types = "[]" and named_types = "[(''level'', ''s'')]"
      and M = example_module and sg = "([''s''], Some [''level''])" and iface = None
      and nm = None] s1
  obtain g1 where g1: "DBusSignal_init example_module [] [(''level'', ''s'')] None None = Inr g1"
    "priv_signature g1 = ([''s''], Some [''level''])"
    by auto
  from signal_init_shapes [where types = "[''i'', ''s'']" and named_types = "[]"
      and M = example_module and sg = "([''i'', ''s''], None)" and iface = None
      and nm = None] s2
  obtain g2 where g2: "DBusSignal_init example_module [''i'', ''s''] [] None None = Inr g2"
    "priv_signature g2 = ([''i'', ''s''], None)"
    by auto
  from signal_init_shapes [where types = "[]" and named_types = "[]"
      and M = example_module and sg = "([], None)" and iface = None and nm = None] s3
  obtain g3 where g3: "DBusSignal_init example_module [] [] None None = Inr g3"
    "priv_signature g3 = ([], None)"
    by auto
  from both g1 g2 g3 show ?thesis by simp
qed

lemma emit_signal_loop_catches:
  assumes "get_name self = Inr n"
  shows "\<forall>e \<in> set (raised (callback_outcomes self args cbs w)). is_Exception e \<Longrightarrow>
         emit_signal_loop repr self args cbs (w, lg) =
           (None, (callbacks_state self args cbs w,
                   lg @ map (emit_log_message n (repr args))
                          (raised (callback_outcomes self args cbs w))))"
proof (induction cbs arbitrary: w lg)
  case Nil
  then show ?case by simp
next
  case (Cons cb cbs)
  obtain r w' where cb: "cb self args w = (r, w')"
    by (cases "cb self args w")
  show ?case
  proof (cases r)
    case None
    with cb Cons.prems have "\<forall>e \<in> set (raised (callback_outcomes self args cbs w')). is_Exception e"
      by simp
    from Cons.IH [OF this] cb None show ?thesis by simp
  next
    case (Some e)
    with cb Cons.prems have e: "is_Exception e"
      and rest: "\<forall>e \<in> set (raised (callback_outcomes self args cbs w')). is_Exception e"
      by simp_all
    from Cons.IH [OF rest] cb Some e assms show ?thesis by simp
  qed
qed

lemma callback_outcomes_length:
  "length (callback_outcomes self args cbs w) = length cbs"
  by (induction cbs arbitrary: w) simp_all

text \<open>
  What the loop does not catch: an exception that is not an \<^verbatim>\<open>Exception\<close>, and the
  exception of the name getter inside the handler of a signal that has no name.
\<close>

lemma emit_signal_loop_base_exception:
  "cb self args w = (Some e, w') \<Longrightarrow> \<not> is_Exception e \<Longrightarrow>
   emit_signal_loop repr self args (cb # cbs) (w, lg) = (Some e, (w', lg))"
  by simp

lemma emit_signal_loop_unnamed:
  "cb self args w = (Some e, w') \<Longrightarrow> is_Exception e \<Longrightarrow> get_name self = Inl e' \<Longrightarrow>
   emit_signal_loop repr self args (cb # cbs) (w, lg) = (Some e', (w', lg))"
  by simp

text \<open>
  C2, as the code has it. When a signal that has its name is emitted and the subscriber
  callbacks raise nothing but instances of \<^verbatim>\<open>Exception\<close>, every callback of the
  owner's list is called in order with the signal descriptor and the argument tuple
  (the outside state is the one all of them leave, and there is one outcome per
  callback), each exception raised is caught and logged with one record, and the emit
  callback returns without an exception.
\<close>

theorem emit_signal_catches:
  assumes "get_name self = Inr n"
    and "\<forall>e \<in> set (raised (callback_outcomes self args (priv_emit_signal_callbacks owner) w)).
           is_Exception e"
  shows "emit_signal_callback repr self owner args (w, lg) =
           (None,
            (callbacks_state self args (priv_emit_signal_callbacks owner) w,
             lg @ map (emit_log_message n (repr args))
                    (raised (callback_outcomes self args (priv_emit_signal_callbacks owner) w)))) \<and>
         length (callback_outcomes self args (priv_emit_signal_callbacks owner) w) =
           length (priv_emit_signal_callbacks owner)"
  using emit_signal_loop_catches [OF assms(1) assms(2)]
  by (simp add: emit_signal_callback_def callback_outcomes_length)

text \<open>
  The spec's example: the first of two subscribers raises, the second still receives
  the body, one record is logged and nothing is raised to the emitter.
\<close>

theorem emit_signal_catches_witness:
  "get_name member_b = Inr ''ValueChanged'' \<and>
   callback_outcomes member_b [1, 2] (priv_emit_signal_callbacks subscribed_thing) [] =
     [Some (Raised ''boom''), None] \<and>
   is_Exception (Raised ''boom'') \<and>
   emit_signal_callback example_repr member_b subscribed_thing [1, 2] ([], []) =
     (None, ([[1, 2]],
             [''An exception ocurred when try to emit signal ValueChanged (1, 2): boom'']))"
proof -
  have n: "get_name member_b = Inr ''ValueChanged''"
    by (simp add: member_b_def DBusDescriptorBase_init_def get_name_def example_module_def
        example_dbus_case_def upper_char_def descriptor_base.extend_def)
  have o: "callback_outcomes member_b [1, 2] (priv_emit_signal_callbacks subscribed_thing) [] =
     [Some (Raised ''boom''), None]"
    by (simp add: subscribed_thing_def failing_callback_def recording_callback_def)
  have st: "callbacks_state member_b [1, 2] (priv_emit_signal_callbacks subscribed_thing) [] =
     [[1, 2]]"
    by (simp add: subscribed_thing_def failing_callback_def recording_callback_def)
  have e: "\<forall>e \<in> set (raised (callback_outcomes member_b [1, 2]
                        (priv_emit_signal_callbacks subscribed_thing) [])). is_Exception e"
    unfolding o by simp
  show ?thesis
    using n o e st emit_signal_catches [OF n e, where repr = example_repr and lg = "[]"]
    by (simp add: emit_log_message_def example_repr_def)
qed

text \<open>
  C2 does not hold for every emission. \<^verbatim>\<open>except Exception\<close> does not catch a
  \<^verbatim>\<open>KeyboardInterrupt\<close>: raised by the first of two subscribers it reaches the
  emitter, the second subscriber is not called and nothing is logged. And when the
  signal has no name yet, the handler's own f-string raises the name getter's
  \<^verbatim>\<open>ValueError\<close> for an ordinary exception of the first subscriber, with the same
  effect.
\<close>

theorem emit_signal_propagates_counterexample:
  "emit_signal_callback example_repr member_b interrupted_thing [1, 2] ([], []) =
     (Some (BaseRaised ''KeyboardInterrupt''), ([], [])) \<and>
   callbacks_state member_b [1, 2] (priv_emit_signal_callbacks interrupted_thing) [] = [[1, 2]] \<and>
   emit_signal_callback example_repr unnamed_signal subscribed_thing [1, 2] ([], []) =
     (Some (ValueError ''Name hasn't been set yet''), ([], [])) \<and>
   callbacks_state unnamed_signal [1, 2] (priv_emit_signal_callbacks subscribed_thing) [] =
     [[1, 2]]"
  by (simp add: emit_signal_callback_def interrupted_thing_def subscribed_thing_def
      interrupting_callback_def failing_callback_def recording_callback_def
      unnamed_signal_def get_name_def)

section \<open>Introspection of a method\<close>

lemma zip_longest_two:
  assumes "length ns \<le> 2"
  shows "map snd (zip_longest ns [t1, t2]) = [Some t1, Some t2]"
proof (cases ns)
  case Nil
  then show ?thesis by simp
next
  case (Cons a as)
  note outer = Cons
  show ?thesis
  proof (cases as)
    case Nil
    with outer show ?thesis by simp
  next
    case (Cons b bs)
    with outer assms have "bs = []" by simp
    with outer Cons show ?thesis by simp
  qed
qed

lemma method_arg_direction:
  "tag (method_arg dir p) = ''arg'' \<and>
   map_of (attrib (method_arg dir p)) ''direction'' = Some (Some dir)"
  by (simp add: method_arg_def)

lemma method_args_direction:
  "filter (\<lambda>c. tag c = ''arg'' \<and> map_of (attrib c) ''direction'' = Some (Some dir'))
     (method_args M dir sg) =
   (if dir' = dir then method_args M dir sg else [])"
  by (simp add: method_args_def filter_map o_def method_arg_direction)

lemma method_arg_type: "map_of (attrib (method_arg dir p)) ''type'' = Some (snd p)"
  by (simp add: method_arg_def)

text \<open>
  C4. For a method whose input signature has two slots (the parameter types
  \<^verbatim>\<open>(int, str)\<close>, with names for the slots or none) and whose output signature has
  none (the return type \<^verbatim>\<open>None\<close>), \<^verbatim>\<open>xml\<close> is a \<^verbatim>\<open>method\<close> element whose children are
  exactly two \<^verbatim>\<open>arg\<close> elements of direction \<^verbatim>\<open>in\<close>, carrying the two type codes in
  order, and no \<^verbatim>\<open>arg\<close> of direction \<^verbatim>\<open>out\<close>; the element is produced when both
  signature objects are true and the name is set.
\<close>

theorem method_xml_int_str_none:
  assumes "sig_bool M (priv_input_signature d)" and "sig_bool M (priv_output_signature d)"
    and "get_name d = Inr n"
    and "sig_iter M (priv_input_signature d) = [t1, t2]"
    and "length (or_empty (sig_names M (priv_input_signature d))) \<le> 2"
    and "sig_iter M (priv_output_signature d) = []"
    and "or_empty (sig_names M (priv_output_signature d)) = []"
  shows "\<exists>x. DBusMethod_xml M d = Inr x \<and> tag x = ''method'' \<and>
             attrib x = [(''name'', Some n)] \<and>
             children x = args_with_direction ''in'' x \<and>
             map (\<lambda>c. map_of (attrib c) ''type'') (args_with_direction ''in'' x) =
               [Some (Some t1), Some (Some t2)] \<and>
             args_with_direction ''out'' x = []"
proof -
  let ?ins = "method_args M ''in'' (priv_input_signature d)"
  let ?outs = "method_args M ''out'' (priv_output_signature d)"
  let ?x = "Element ''method'' [(''name'', Some n)] (?ins @ ?outs)"
  have outs: "?outs = []"
    using assms(6,7) by (simp add: method_args_def)
  have xml: "DBusMethod_xml M d = Inr ?x"
    using assms(1-3) by (simp add: DBusMethod_xml_def)
  have ins: "args_with_direction ''in'' ?x = ?ins"
    by (simp add: args_with_direction_def outs method_args_direction)
  have none: "args_with_direction ''out'' ?x = []"
    by (simp add: args_with_direction_def outs method_args_direction)
  have types: "map (\<lambda>c. map_of (attrib c) ''type'') ?ins = [Some (Some t1), Some (Some t2)]"
  proof -
    have "map (\<lambda>c. map_of (attrib c) ''type'') ?ins =
          map (\<lambda>p. Some (snd p))
            (zip_longest (or_empty (sig_names M (priv_input_signature d))) [t1, t2])"
      using assms(4) by (simp add: method_args_def o_def method_arg_type)
    also have "\<dots> = map Some (map snd
            (zip_longest (or_empty (sig_names M (priv_input_signature d))) [t1, t2]))"
      by (simp add: o_def)
    also have "\<dots> = [Some (Some t1), Some (Some t2)]"
      by (simp only: zip_longest_two [OF assms(5)] list.map)
    finally show ?thesis .
  qed
  show ?thesis
    using xml ins none types outs by (intro exI [of _ ?x]) simp
qed

theorem method_xml_int_str_none_witness:
  "sig_bool example_module (priv_input_signature set_label_method) \<and>
   sig_bool example_module (priv_output_signature set_label_method) \<and>
   get_name set_label_method = Inr ''SetLabel'' \<and>
   sig_iter example_module (priv_input_signature set_label_method) = [''i'', ''s''] \<and>
   sig_iter example_module (priv_output_signature set_label_method) = [] \<and>
   (case DBusMethod_xml example_module set_label_method of
      Inl e \<Rightarrow> False
    | Inr x \<Rightarrow>
        map (\<lambda>c. map_of (attrib c) ''type'') (args_with_direction ''in'' x) =
          [Some (Some ''i''), Some (Some ''s'')] \<and>
        args_with_direction ''out'' x = [])"
proof -
  have h1: "sig_bool example_module (priv_input_signature set_label_method)"
    and h2: "sig_bool example_module (priv_output_signature set_label_method)"
    by (simp_all add: example_module_def)
  have h3: "get_name set_label_method = Inr ''SetLabel''"
    by (simp add: get_name_def set_label_method_def)
  have h4: "sig_iter example_module (priv_input_signature set_label_method) = [''i'', ''s'']"
    and h5: "length (or_empty (sig_names example_module (priv_input_signature set_label_method))) \<le> 2"
    and h6: "sig_iter example_module (priv_output_signature set_label_method) = []"
    and h7: "or_empty (sig_names example_module (priv_output_signature set_label_method)) = []"
    by (simp_all add: example_module_def set_label_method_def)
  from method_xml_int_str_none [OF h1 h2 h3 h4 h5 h6 h7]
  obtain x where "DBusMethod_xml example_module set_label_method = Inr x"
    and "map (\<lambda>c. map_of (attrib c) ''type'') (args_with_direction ''in'' x) =
          [Some (Some ''i''), Some (Some ''s'')]"
    and "args_with_direction ''out'' x = []"
    by (elim exE conjE)
  then have c: "case DBusMethod_xml example_module set_label_method of
      Inl e \<Rightarrow> False
    | Inr x \<Rightarrow>
        map (\<lambda>c. map_of (attrib c) ''type'') (args_with_direction ''in'' x) =
          [Some (Some ''i''), Some (Some ''s'')] \<and>
        args_with_direction ''out'' x = []"
    by (simp only: sum.case simp_thms)
  from h1 h2 h3 h4 h6 c show ?thesis by (simp only: simp_thms)
qed

section \<open>The registry\<close>

text \<open>
  C8. \<^verbatim>\<open>register_server\<close> changes nothing and warns of nothing when the type declares
  no signals; when signals are declared and the server has no emission capability it
  issues one warning and leaves the callback list as it was; otherwise it appends
  exactly one callback to the list, the server's capability bound to the path.
\<close>

theorem register_server_cases:
  "(\<not> list_truthy (priv_dbus_signals T) \<longrightarrow> register_server T self server path = (self, [])) \<and>
   (list_truthy (priv_dbus_signals T) \<and> server_emit_signal_callback server = None \<longrightarrow>
      register_server T self server path =
        (self,
         [DBusObjectWarning
            (''Object '' @ quoted (dbus_name self) @ '' emits signals but the server '' @
             quoted (server_class_name server) @
             '' does not support this. Signals will not be emitted.'')])) \<and>
   (list_truthy (priv_dbus_signals T) \<and> server_emit_signal_callback server = Some f \<longrightarrow>
      register_server T self server path =
        (self\<lparr>priv_emit_signal_callbacks :=
                priv_emit_signal_callbacks self @ [functools_partial f path]\<rparr>, []) \<and>
      functools_partial f path sg body = f sg path body)"
  by (simp add: register_server_def functools_partial_def)

theorem register_server_cases_witness:
  "\<not> list_truthy (priv_dbus_signals silent_type) \<and>
   list_truthy (priv_dbus_signals signalling_type) \<and>
   server_emit_signal_callback mute_server = None \<and>
   register_server silent_type subscribed_thing recording_server ''/player'' =
     (subscribed_thing, []) \<and>
   fst (register_server signalling_type subscribed_thing mute_server ''/player'') =
     subscribed_thing \<and>
   length (snd (register_server signalling_type subscribed_thing mute_server ''/player'')) = 1 \<and>
   length (priv_emit_signal_callbacks
             (fst (register_server signalling_type subscribed_thing recording_server
                     ''/player''))) = 3 \<and>
   snd (register_server signalling_type subscribed_thing recording_server ''/player'') = []"
proof -
  have a: "\<not> list_truthy (priv_dbus_signals silent_type)"
    and b: "list_truthy (priv_dbus_signals signalling_type)"
    by (simp_all add: silent_type_def signalling_type_def)
  have c: "server_emit_signal_callback mute_server = None"
    by (simp add: mute_server_def)
  obtain f where f: "server_emit_signal_callback recording_server = Some f"
    by (simp add: recording_server_def)
  have n: "length (priv_emit_signal_callbacks subscribed_thing) = 2"
    by (simp add: subscribed_thing_def)
  show ?thesis
    using a b c f n
      register_server_cases [where T = silent_type and self = subscribed_thing
        and server = recording_server and path = "''/player''" and f = f]
      register_server_cases [where T = signalling_type and self = subscribed_thing
        and server = mute_server and path = "''/player''" and f = f]
      register_server_cases [where T = signalling_type and self = subscribed_thing
        and server = recording_server and path = "''/player''" and f = f]
    by simp
qed

lemma gen_next_yield:
  assumes "gen_next T g s = (Yield t, g', s')"
  shows "\<exists>n a rest. remaining T g = (n, a) # rest \<and>
           t = (Getter_lambda (g_cell g), Setter_lambda (g_cell g), a) \<and>
           g_pc g' = Suspended rest \<and> g_cell g' = g_cell g \<and>
           st_cells s' (g_cell g) = Some n"
proof (cases "g_pc g")
  case Created
  with assms show ?thesis
    by (cases "priv_dbus_properties T")
      (auto simp: gen_next_def gen_loop_def remaining_def Let_def
        split: if_splits list.splits sum.splits)
next
  case (Suspended rest)
  with assms show ?thesis
    by (auto simp: gen_next_def gen_loop_def remaining_def Let_def
        split: list.splits sum.splits)
next
  case Finished
  with assms show ?thesis by (simp add: gen_next_def)
qed

text \<open>A generator writes no cell but its own.\<close>

lemma gen_next_other_cells:
  "gen_next T g s = (r, g', s') \<Longrightarrow> c \<noteq> g_cell g \<Longrightarrow> st_cells s' c = st_cells s c"
  by (auto simp: gen_next_def gen_loop_def Let_def
      split: gen_pc.splits if_splits list.splits sum.splits)

lemma gen_nexts_invariant:
  "gen_nexts T k g s = Some (ts, g', s') \<Longrightarrow>
   length ts = k \<and> k \<le> length (remaining T g) \<and> g_cell g' = g_cell g \<and>
   (\<forall>t \<in> set ts. fst t = Getter_lambda (g_cell g) \<and> fst (snd t) = Setter_lambda (g_cell g)) \<and>
   map (\<lambda>t. snd (snd t)) ts = map snd (take k (remaining T g)) \<and>
   (0 < k \<longrightarrow> st_cells s' (g_cell g) = Some (fst (remaining T g ! (k - 1))) \<and>
              g_pc g' = Suspended (drop k (remaining T g)))"
proof (induction k arbitrary: g s ts)
  case 0
  then show ?case by simp
next
  case (Suc k)
  from Suc.prems obtain t g1 s1 ts1 where
    step: "gen_next T g s = (Yield t, g1, s1)" and
    rest: "gen_nexts T k g1 s1 = Some (ts1, g', s')" and
    ts: "ts = t # ts1"
    by (auto split: prod.splits gen_result.splits option.splits)
  from gen_next_yield [OF step] obtain n a items where
    rem: "remaining T g = (n, a) # items" and
    t: "t = (Getter_lambda (g_cell g), Setter_lambda (g_cell g), a)" and
    pc: "g_pc g1 = Suspended items" and cell: "g_cell g1 = g_cell g" and
    bound: "st_cells s1 (g_cell g) = Some n"
    by blast
  from pc have rem1: "remaining T g1 = items" by (simp add: remaining_def)
  note ih = Suc.IH [OF rest, unfolded rem1 cell]
  show ?case
  proof (cases k)
    case 0
    with rest have "g' = g1" "s' = s1" "ts1 = []" by simp_all
    with 0 ts t rem pc cell bound show ?thesis by simp
  next
    case (Suc j)
    with ih ts t rem show ?thesis by (auto simp: nth_Cons')
  qed
qed

text \<open>The generator leaves the instance, the getters and the setters alone.\<close>

lemma gen_next_keeps:
  "gen_next T g s = (r, g', s') \<Longrightarrow>
   st_self s' = st_self s \<and>
   priv_func (st_properties s' a) = priv_func (st_properties s a) \<and>
   priv_setter (st_properties s' a) = priv_setter (st_properties s a)"
  by (auto simp: gen_next_def gen_loop_def Let_def register_interface_def
      split: gen_pc.splits if_splits list.splits sum.splits option.splits)

lemma gen_nexts_keeps:
  "gen_nexts T k g s = Some (ts, g', s') \<Longrightarrow>
   st_self s' = st_self s \<and>
   priv_func (st_properties s' a) = priv_func (st_properties s a) \<and>
   priv_setter (st_properties s' a) = priv_setter (st_properties s a)"
proof (induction k arbitrary: g s ts)
  case 0
  then show ?case by simp
next
  case (Suc k)
  from Suc.prems obtain t g1 s1 ts1 where
    step: "gen_next T g s = (Yield t, g1, s1)" and
    rest: "gen_nexts T k g1 s1 = Some (ts1, g', s')"
    by (auto split: prod.splits gen_result.splits option.splits)
  from gen_next_keeps [OF step, of a] Suc.IH [OF rest] show ?case by simp
qed

text \<open>
  C9. After \<open>k\<close> triples have been yielded by one generator of
  \<^verbatim>\<open>get_dbus_properties\<close>, the getter and the setter of every one of them, the
  \<open>i\<close>-th included for each \<open>i < k\<close>, read and write the property named in the
  \<open>k\<close>-th pair of the member list, the one yielded last, although the \<open>i\<close>-th triple
  was yielded with the descriptor of the \<open>i\<close>-th pair: the lambdas share the cell of
  the loop variable.
\<close>

theorem lambdas_late_binding:
  assumes "gen_nexts T k (fst (get_dbus_properties s0)) (snd (get_dbus_properties s0)) =
             Some (ts, g, s)"
    and "i < k"
  shows "k \<le> length (or_empty (priv_dbus_properties T)) \<and> length ts = k \<and>
         snd (snd (ts ! i)) = snd (or_empty (priv_dbus_properties T) ! i) \<and>
         call_getter T (fst (ts ! i)) s =
           getattr_property T s (fst (or_empty (priv_dbus_properties T) ! (k - 1))) \<and>
         call_setter T (fst (snd (ts ! i))) v s =
           setattr_property T s (fst (or_empty (priv_dbus_properties T) ! (k - 1))) v"
proof -
  let ?g0 = "fst (get_dbus_properties s0)"
  let ?ps = "or_empty (priv_dbus_properties T)"
  have rem: "remaining T ?g0 = ?ps"
    by (simp add: remaining_def get_dbus_properties_def)
  note inv = gen_nexts_invariant [OF assms(1), unfolded rem]
  from inv assms(2) have len: "length ts = k" "k \<le> length ?ps" "i < length ts"
    by simp_all
  from inv assms(2) have cell: "st_cells s (g_cell ?g0) = Some (fst (?ps ! (k - 1)))"
    by simp
  from inv len have "ts ! i \<in> set ts" by simp
  with inv have
    clos: "fst (ts ! i) = Getter_lambda (g_cell ?g0)"
          "fst (snd (ts ! i)) = Setter_lambda (g_cell ?g0)"
    by blast+
  from inv have "map (\<lambda>t. snd (snd t)) ts ! i = map snd (take k ?ps) ! i" by simp
  with len assms(2) have desc: "snd (snd (ts ! i)) = snd (?ps ! i)" by simp
  show ?thesis
    using len desc clos cell by (simp add: call_getter_def call_setter_def)
qed

text \<open>
  On the player, whose \<^verbatim>\<open>volume\<close> is 7 and \<^verbatim>\<open>balance\<close> 0: once both triples are
  yielded, the getter of the first triple, yielded with the descriptor of \<^verbatim>\<open>volume\<close>,
  returns 0, and its setter assigns \<^verbatim>\<open>balance\<close>.
\<close>

theorem lambdas_late_binding_witness:
  "(0::nat) < 2 \<and>
   (case gen_nexts player_type 2 (fst (get_dbus_properties player_store))
           (snd (get_dbus_properties player_store)) of
      None \<Rightarrow> False
    | Some (ts, g, s) \<Rightarrow>
        snd (snd (ts ! 0)) = 0 \<and>
        getattr_property player_type s ''volume'' = Inr (Value 7) \<and>
        call_getter player_type (fst (ts ! 0)) s = Inr (Value 0) \<and>
        fst (call_setter player_type (fst (snd (ts ! 0))) 5 s) = None \<and>
        volume (st_self (snd (call_setter player_type (fst (snd (ts ! 0))) 5 s))) = 7 \<and>
        balance (st_self (snd (call_setter player_type (fst (snd (ts ! 0))) 5 s))) = 5)"
proof -
  let ?g0 = "fst (get_dbus_properties player_store)"
  let ?s0 = "snd (get_dbus_properties player_store)"
  obtain ts g s where run: "gen_nexts player_type 2 ?g0 ?s0 = Some (ts, g, s)"
    by (simp add: numeral_2_eq_2 gen_next_def gen_loop_def get_dbus_properties_def
        player_type_def player_store_def register_interface_def player1_def
        volume_property_def balance_property_def DBusProperty_setter_def)
  have ps: "or_empty (priv_dbus_properties player_type) = [(''volume'', 0), (''balance'', 1)]"
    by (simp add: player_type_def)
  from gen_nexts_keeps [OF run] have
    self: "st_self s = player1" and
    f0: "priv_func (st_properties s 0) = volume_getter" and
    f1: "priv_func (st_properties s (Suc 0)) = balance_getter" and
    s1: "priv_setter (st_properties s (Suc 0)) = Some balance_setter"
    by (simp_all add: get_dbus_properties_def player_store_def volume_property_def
        balance_property_def DBusProperty_setter_def)
  have vol: "getattr_property player_type s ''volume'' = Inr (Value 7)"
    by (simp add: getattr_property_def player_type_def DBusProperty_get_def self f0
        volume_getter_def player1_def)
  have bal: "getattr_property player_type s ''balance'' = Inr (Value 0)"
    by (simp add: getattr_property_def player_type_def DBusProperty_get_def self f1
        balance_getter_def player1_def)
  have set: "setattr_property player_type s ''balance'' 5 =
               (None, s\<lparr>st_self := player1\<lparr>balance := 5\<rparr>\<rparr>)"
    by (simp add: setattr_property_def player_type_def DBusProperty_set_def self s1
        balance_setter_def)
  have lt: "(0::nat) < 2" by simp
  from lambdas_late_binding [OF run lt, where v = 5] ps vol bal set run
  show ?thesis by (simp add: player1_def)
qed

end
